theory Spec2Isabelle
  imports Complex_Main
begin

section \<open>Data model of salestax.go\<close>

text \<open>
  The two string types \<open>TaxExchange\<close> and \<open>TaxArea\<close> are only ever given the values of
  their declared constants, so each is an enumeration.
\<close>

datatype TaxExchange = TaxExchangeBusiness | TaxExchangeConsumer

datatype TaxArea = TaxAreaWorldwide | TaxAreaNational | TaxAreaRegional

record TaxCharge =
  Direct :: bool
  Reverse :: bool

record SalesTax =
  Type :: string
  Rate :: real
  Area :: TaxArea
  Exchange :: TaxExchange
  Charge :: TaxCharge

text \<open>
  The struct \<open>taxRate\<close>. A Go map is a list of key-value pairs read with \<open>map_of\<close>; the
  order of the list stands for the order in which \<open>range\<close> visits the map, which Go leaves
  open, so every statement below holds for every order. A nil map is \<open>None\<close>.
  The \<open>float32\<close> rate is an exact number here. The code adds two rates once and compares
  rates with zero, and the addition of two finite \<open>float32\<close> values has the sign of the exact
  sum and returns a value to which 0 is added as it is; \<open>+\<close> below stands for the addition
  of the code.
\<close>

datatype taxRate = taxRate
  (TaxType: string)
  (TaxRate: real)
  (PreviousRecordings: "(string \<times> taxRate) list option")
  (States: "(string \<times> taxRate) list option")

text \<open>An instant of \<open>time.Time\<close>; only the order of instants is used (\<open>Before\<close>).\<close>

type_synonym instant = int

text \<open>
  Errors. \<open>JSONError\<close> is what \<open>json.Unmarshal\<close> returns on a malformed resource,
  \<open>TimeParseError\<close> what \<open>time.Parse\<close> returns, and \<open>Errorf msg err\<close> is
  \<open>fmt.Errorf("msg: %w", err)\<close>.
\<close>

datatype error = JSONError | TimeParseError string | Errorf string error

text \<open>
  The package-level variables and the standard library calls the package depends on:
  the two embedded resources as \<open>json.Unmarshal\<close> decodes them (\<open>None\<close> when decoding
  fails), the clock \<open>currentTime\<close>, read as one instant for the length of a call, and
  \<open>time.Parse\<close> at the layout \<open>2006-01-02T15:04:05.000Z\<close> (\<open>None\<close> when it fails).
\<close>

record env =
  regionCountriesData :: "(string \<times> string list) list option"
  salesTaxRatesData :: "(string \<times> taxRate) list option"
  currentTime :: instant
  time_Parse :: "string \<Rightarrow> instant option"

record Ctrl =
  OriginCountryCode :: "string option"
  RegionalTaxEnabled :: bool
  regionCountries :: "(string \<times> string list) list option"
  taxRates :: "(string \<times> taxRate) list option"

definition defaultTaxRate :: taxRate where
  "defaultTaxRate = taxRate ''none'' 0 None None"

text \<open>The zero value of the struct, which indexing a map gives for a missing key.\<close>

definition zeroTaxRate :: taxRate where
  "zeroTaxRate = taxRate [] 0 None None"

text \<open>
  Modelled from the spec: the generic helper \<open>Ptr\<close> is not among the sources. Section 9 of
  the specification describes the pointer parameters as optional values; \<open>Ptr v\<close> is the
  pointer to a fresh copy of \<open>v\<close>, a present optional value.
\<close>

definition Ptr :: "'a \<Rightarrow> 'a option" where
  "Ptr v = Some v"

text \<open>
  \<open>strings.ToUpper\<close> on the bytes of a string: the letters a to z lose 32, every other
  byte stays. This is what Go does on ASCII strings, which country and state codes are.
\<close>

definition upperByte :: "char \<Rightarrow> char" where
  "upperByte c =
     (if (97::nat) \<le> of_char c \<and> of_char c \<le> (122::nat)
      then char_of (of_char c - (32::nat)) else c)"

definition ToUpper :: "string \<Rightarrow> string" where
  "ToUpper s = map upperByte s"

text \<open>The two-result map index \<open>v, ok := m[k]\<close>, also on a nil map.\<close>

definition mapIndex :: "(string \<times> taxRate) list option \<Rightarrow> string \<Rightarrow> taxRate \<times> bool" where
  "mapIndex m k =
     (case m of
        None \<Rightarrow> (zeroTaxRate, False)
      | Some kvs \<Rightarrow>
          (case map_of kvs k of
             None \<Rightarrow> (zeroTaxRate, False)
           | Some v \<Rightarrow> (v, True)))"

section \<open>The reference data: getRegionCountries, getSalesTaxRates\<close>

text \<open>
  Both load the resource on the first call and keep it in the controller, so each function
  of the controller returns the controller next to its result. A failed decoding leaves
  the cache as it was.
\<close>

definition getRegionCountries ::
  "env \<Rightarrow> Ctrl \<Rightarrow> (error + (string \<times> string list) list) \<times> Ctrl" where
  "getRegionCountries e t =
     (case regionCountries t of
        None \<Rightarrow>
          (case regionCountriesData e of
             None \<Rightarrow> (Inl (Errorf ''failed to unmarshal data'' JSONError), t)
           | Some m \<Rightarrow> (Inr m, t\<lparr>regionCountries := Some m\<rparr>))
      | Some m \<Rightarrow> (Inr m, t))"

definition getSalesTaxRates ::
  "env \<Rightarrow> Ctrl \<Rightarrow> (error + (string \<times> taxRate) list) \<times> Ctrl" where
  "getSalesTaxRates e t =
     (case taxRates t of
        None \<Rightarrow>
          (case salesTaxRatesData e of
             None \<Rightarrow> (Inl (Errorf ''failed to unmarshal data'' JSONError), t)
           | Some m \<Rightarrow> (Inr m, t\<lparr>taxRates := Some m\<rparr>))
      | Some m \<Rightarrow> (Inr m, t))"

section \<open>The area classifier: getTargetArea\<close>

text \<open>The loop over the regions, which stops at the first region holding both countries.\<close>

fun getTargetArea_loop :: "string \<Rightarrow> string \<Rightarrow> (string \<times> string list) list \<Rightarrow> TaxArea" where
  "getTargetArea_loop origin countryCode [] = TaxAreaWorldwide"
| "getTargetArea_loop origin countryCode ((region, countries) # rest) =
     (if origin \<in> set countries \<and> countryCode \<in> set countries then TaxAreaRegional
      else getTargetArea_loop origin countryCode rest)"

definition getTargetArea :: "env \<Rightarrow> Ctrl \<Rightarrow> string \<Rightarrow> (error + TaxArea) \<times> Ctrl" where
  "getTargetArea e t countryCode =
     (case OriginCountryCode t of
        None \<Rightarrow> (Inr TaxAreaWorldwide, t)
      | Some origin \<Rightarrow>
          if origin = countryCode then (Inr TaxAreaNational, t)
          else
            (case getRegionCountries e t of
               (Inl err, t') \<Rightarrow> (Inl (Errorf ''failed to get region countries'' err), t')
             | (Inr regions, t') \<Rightarrow> (Inr (getTargetArea_loop origin countryCode regions), t')))"

section \<open>The rate resolver: getSalesTaxRate\<close>

text \<open>
  The loop over the keys of \<open>PreviousRecordings\<close>. \<open>activeDateKey\<close> and \<open>activeDate\<close> are
  set together, so they are one optional pair. The loop returns at the first key that does
  not parse.
\<close>

fun getSalesTaxRate_loop ::
  "env \<Rightarrow> string list \<Rightarrow> (string \<times> instant) option \<Rightarrow> error + (string \<times> instant) option" where
  "getSalesTaxRate_loop e [] active = Inr active"
| "getSalesTaxRate_loop e (dateStr # rest) active =
     (case time_Parse e dateStr of
        None \<Rightarrow> Inl (Errorf (''failed to parse date '' @ dateStr) (TimeParseError dateStr))
      | Some date \<Rightarrow>
          getSalesTaxRate_loop e rest
            (if currentTime e < date
             then (case active of
                     None \<Rightarrow> Some (dateStr, date)
                   | Some (activeDateKey, activeDate) \<Rightarrow>
                       if date < activeDate then Some (dateStr, date) else active)
             else active))"

text \<open>Lines 209 to 241: the resolution in the table that \<open>getSalesTaxRates\<close> returned.\<close>

definition getSalesTaxRate_resolve ::
  "env \<Rightarrow> (string \<times> taxRate) list \<Rightarrow> string \<Rightarrow> error + taxRate" where
  "getSalesTaxRate_resolve e rates countryCode =
     (case mapIndex (Some rates) countryCode of
        (rate, ok) \<Rightarrow>
          if \<not> ok then Inr defaultTaxRate
          else
            (case PreviousRecordings rate of
               None \<Rightarrow> Inr rate
             | Some prev \<Rightarrow>
                 (case getSalesTaxRate_loop e (map fst prev) None of
                    Inl err \<Rightarrow> Inl err
                  | Inr None \<Rightarrow> Inr rate
                  | Inr (Some (activeDateKey, activeDate)) \<Rightarrow>
                      Inr (fst (mapIndex (PreviousRecordings rate) activeDateKey)))))"

definition getSalesTaxRate :: "env \<Rightarrow> Ctrl \<Rightarrow> string \<Rightarrow> (error + taxRate) \<times> Ctrl" where
  "getSalesTaxRate e t countryCode =
     (case getSalesTaxRates e t of
        (Inl err, t') \<Rightarrow> (Inl (Errorf ''failed to get sales tax rates'' err), t')
      | (Inr rates, t') \<Rightarrow> (getSalesTaxRate_resolve e rates countryCode, t'))"

section \<open>The exchange classifier: hasTotalSalesTax, getTaxExchangeStatus\<close>

text \<open>Lines 191 to 200: the total of the country rate and the rate of a listed state.\<close>

definition hasTotalSalesTax_total :: "taxRate \<Rightarrow> string option \<Rightarrow> bool" where
  "hasTotalSalesTax_total rate stateCode =
     (let totalTax = TaxRate rate;
          totalTax =
            (case stateCode of
               None \<Rightarrow> totalTax
             | Some s \<Rightarrow>
                 (case mapIndex (States rate) s of
                    (rate', ok) \<Rightarrow> if ok then totalTax + TaxRate rate' else totalTax))
      in 0 < totalTax)"

definition hasTotalSalesTax ::
  "env \<Rightarrow> Ctrl \<Rightarrow> string \<Rightarrow> string option \<Rightarrow> (error + bool) \<times> Ctrl" where
  "hasTotalSalesTax e t countryCode0 stateCode0 =
     (let countryCode = ToUpper countryCode0;
          stateCode = (case stateCode0 of None \<Rightarrow> None | Some s \<Rightarrow> Ptr (ToUpper s))
      in case getSalesTaxRate e t countryCode of
           (Inl err, t') \<Rightarrow>
             (Inl (Errorf (''failed to get country tax rate for '' @ countryCode) err), t')
         | (Inr rate, t') \<Rightarrow> (Inr (hasTotalSalesTax_total rate stateCode), t'))"

text \<open>Lines 169 to 177: the status and the exemption.\<close>

definition getTaxExchangeStatus_status ::
  "TaxArea \<Rightarrow> bool \<Rightarrow> string option \<Rightarrow> TaxExchange \<times> bool" where
  "getTaxExchangeStatus_status targetArea hasTotal taxNumber =
     (if hasTotal then
        (if taxNumber \<noteq> None then (TaxExchangeBusiness, targetArea \<noteq> TaxAreaNational)
         else (TaxExchangeConsumer, False))
      else (TaxExchangeConsumer, True))"

definition getTaxExchangeStatus ::
  "env \<Rightarrow> Ctrl \<Rightarrow> string \<Rightarrow> string option \<Rightarrow> string option
     \<Rightarrow> (error + TaxExchange \<times> bool) \<times> Ctrl" where
  "getTaxExchangeStatus e t countryCode stateCode taxNumber =
     (case getTargetArea e t countryCode of
        (Inl err, t1) \<Rightarrow> (Inl (Errorf ''failed to get target area'' err), t1)
      | (Inr targetArea, t1) \<Rightarrow>
          (case hasTotalSalesTax e t1 countryCode stateCode of
             (Inl err, t2) \<Rightarrow>
               (Inl (Errorf ''failed to determine whether a sales tax is applicable'' err), t2)
           | (Inr hasTotal, t2) \<Rightarrow>
               (Inr (getTaxExchangeStatus_status targetArea hasTotal taxNumber), t2)))"

section \<open>The tax composer: GetSalesTax\<close>

text \<open>
  Lines 87 to 96: the state component when the destination's own record applies. In the
  branch that indexes \<open>States\<close> the pointer \<open>stateTax\<close> is assigned twice in a row: the
  default under \<open>if !ok\<close> (line 90), and then \<open>&tax\<close> on every path (line 93). No path
  leaves \<open>countryTax\<close> or \<open>stateTax\<close> nil, so outside these two lines a pointer to a record
  is the record.
\<close>

definition GetSalesTax_stateTax :: "taxRate \<Rightarrow> string option \<Rightarrow> taxRate" where
  "GetSalesTax_stateTax countryTax stateCode =
     (case (States countryTax, stateCode) of
        (Some states, Some s) \<Rightarrow>
          (let (tax, ok) = mapIndex (States countryTax) s;
               stateTax = (if \<not> ok then Ptr defaultTaxRate else None);
               stateTax = tax
           in stateTax)
      | _ \<Rightarrow> defaultTaxRate)"

text \<open>Lines 72 to 97: the choice of \<open>countryTax\<close> and \<open>stateTax\<close>.\<close>

definition GetSalesTax_rates ::
  "env \<Rightarrow> Ctrl \<Rightarrow> TaxArea \<Rightarrow> string \<Rightarrow> string option
     \<Rightarrow> (error + taxRate \<times> taxRate) \<times> Ctrl" where
  "GetSalesTax_rates e t targetArea countryCode stateCode =
     (case (if targetArea = TaxAreaRegional \<and> \<not> RegionalTaxEnabled t
            then OriginCountryCode t else None) of
        Some origin \<Rightarrow>
          (case getSalesTaxRate e t origin of
             (Inl err, t') \<Rightarrow>
               (Inl (Errorf (''failed to get country tax rate for '' @ origin) err), t')
           | (Inr countryTax, t') \<Rightarrow> (Inr (countryTax, defaultTaxRate), t'))
      | None \<Rightarrow>
          (case getSalesTaxRate e t countryCode of
             (Inl err, t') \<Rightarrow>
               (Inl (Errorf (''failed to get country tax rate for '' @ countryCode) err), t')
           | (Inr countryTax, t') \<Rightarrow>
               (Inr (countryTax, GetSalesTax_stateTax countryTax stateCode), t')))"

text \<open>Lines 99 to 111: the exchange status and the exemption.\<close>

definition GetSalesTax_exchange ::
  "env \<Rightarrow> Ctrl \<Rightarrow> taxRate \<Rightarrow> taxRate \<Rightarrow> string \<Rightarrow> string option \<Rightarrow> string option
     \<Rightarrow> (error + TaxExchange \<times> bool) \<times> Ctrl" where
  "GetSalesTax_exchange e t countryTax stateTax countryCode stateCode taxNumber =
     (if 0 < TaxRate countryTax \<or> 0 < TaxRate stateTax then
        (case getTaxExchangeStatus e t countryCode stateCode taxNumber of
           (Inl err, t') \<Rightarrow> (Inl (Errorf ''failed to get tax exchange status'' err), t')
         | (Inr (exchangeStatus, exemptStatus), t') \<Rightarrow> (Inr (exchangeStatus, exemptStatus), t'))
      else (Inr (TaxExchangeConsumer, False), t))"

text \<open>Lines 113 to 139: the type, the charge flags and the decision.\<close>

definition GetSalesTax_decision ::
  "TaxArea \<Rightarrow> taxRate \<Rightarrow> taxRate \<Rightarrow> TaxExchange \<Rightarrow> bool \<Rightarrow> SalesTax" where
  "GetSalesTax_decision targetArea countryTax stateTax taxExchange isExempt =
     (let totalRate = TaxRate countryTax + TaxRate stateTax;
          taxType = TaxType countryTax;
          taxType =
            (if 0 < TaxRate stateTax then
               (if 0 < TaxRate countryTax then taxType @ ''+'' @ TaxType stateTax
                else TaxType stateTax)
             else taxType);
          taxCharge = \<lparr>Direct = False, Reverse = False\<rparr>;
          taxCharge =
            (if taxType \<noteq> ''none''
             then \<lparr>Direct = \<not> isExempt, Reverse = isExempt \<and> 0 < totalRate\<rparr>
             else taxCharge);
          taxRate = totalRate;
          totalRate = (if isExempt then 0 else totalRate)
      in \<lparr>Type = taxType, Rate = taxRate, Area = targetArea, Exchange = taxExchange,
          Charge = taxCharge\<rparr>)"

definition GetSalesTax ::
  "env \<Rightarrow> Ctrl \<Rightarrow> string \<Rightarrow> string option \<Rightarrow> string option \<Rightarrow> (error + SalesTax) \<times> Ctrl" where
  "GetSalesTax e t countryCode0 stateCode0 taxNumber =
     (let countryCode = ToUpper countryCode0;
          stateCode = (case stateCode0 of None \<Rightarrow> None | Some s \<Rightarrow> Ptr (ToUpper s))
      in case getTargetArea e t countryCode of
           (Inl err, t1) \<Rightarrow> (Inl (Errorf ''failed to get target area'' err), t1)
         | (Inr targetArea, t1) \<Rightarrow>
             (case GetSalesTax_rates e t1 targetArea countryCode stateCode of
                (Inl err, t2) \<Rightarrow> (Inl err, t2)
              | (Inr (countryTax, stateTax), t2) \<Rightarrow>
                  (case GetSalesTax_exchange e t2 countryTax stateTax countryCode stateCode
                          taxNumber of
                     (Inl err, t3) \<Rightarrow> (Inl err, t3)
                   | (Inr (taxExchange, isExempt), t3) \<Rightarrow>
                       (Inr (GetSalesTax_decision targetArea countryTax stateTax taxExchange
                               isExempt), t3))))"

section \<open>Results as functions of the loaded tables\<close>

text \<open>
  The controller changes only by filling its two caches, and a filled cache holds the table
  that the call which filled it returned. \<open>loaded e t\<close> is the controller with both caches
  filled; the functions below give the result of each function of the controller from it.
  They serve the proofs: the lemmas of the next section show that every function of the
  controller returns this result and leaves \<open>loaded e t\<close> as it is.
\<close>

definition loaded :: "env \<Rightarrow> Ctrl \<Rightarrow> Ctrl" where
  "loaded e t =
     t\<lparr>regionCountries :=
          (case regionCountries t of None \<Rightarrow> regionCountriesData e | Some m \<Rightarrow> Some m),
        taxRates := (case taxRates t of None \<Rightarrow> salesTaxRatesData e | Some m \<Rightarrow> Some m)\<rparr>"

definition regionsRes :: "Ctrl \<Rightarrow> error + (string \<times> string list) list" where
  "regionsRes w =
     (case regionCountries w of
        None \<Rightarrow> Inl (Errorf ''failed to unmarshal data'' JSONError)
      | Some m \<Rightarrow> Inr m)"

definition tableRes :: "Ctrl \<Rightarrow> error + (string \<times> taxRate) list" where
  "tableRes w =
     (case taxRates w of
        None \<Rightarrow> Inl (Errorf ''failed to unmarshal data'' JSONError)
      | Some m \<Rightarrow> Inr m)"

definition areaRes :: "Ctrl \<Rightarrow> string \<Rightarrow> error + TaxArea" where
  "areaRes w countryCode =
     (case OriginCountryCode w of
        None \<Rightarrow> Inr TaxAreaWorldwide
      | Some origin \<Rightarrow>
          if origin = countryCode then Inr TaxAreaNational
          else
            (case regionsRes w of
               Inl err \<Rightarrow> Inl (Errorf ''failed to get region countries'' err)
             | Inr regions \<Rightarrow> Inr (getTargetArea_loop origin countryCode regions)))"

definition rateRes :: "env \<Rightarrow> Ctrl \<Rightarrow> string \<Rightarrow> error + taxRate" where
  "rateRes e w countryCode =
     (case tableRes w of
        Inl err \<Rightarrow> Inl (Errorf ''failed to get sales tax rates'' err)
      | Inr rates \<Rightarrow> getSalesTaxRate_resolve e rates countryCode)"

definition hasTotalRes :: "env \<Rightarrow> Ctrl \<Rightarrow> string \<Rightarrow> string option \<Rightarrow> error + bool" where
  "hasTotalRes e w countryCode stateCode =
     (case rateRes e w (ToUpper countryCode) of
        Inl err \<Rightarrow> Inl (Errorf (''failed to get country tax rate for '' @ ToUpper countryCode) err)
      | Inr rate \<Rightarrow> Inr (hasTotalSalesTax_total rate (map_option ToUpper stateCode)))"

definition statusRes ::
  "env \<Rightarrow> Ctrl \<Rightarrow> string \<Rightarrow> string option \<Rightarrow> string option \<Rightarrow> error + TaxExchange \<times> bool" where
  "statusRes e w countryCode stateCode taxNumber =
     (case areaRes w countryCode of
        Inl err \<Rightarrow> Inl (Errorf ''failed to get target area'' err)
      | Inr targetArea \<Rightarrow>
          (case hasTotalRes e w countryCode stateCode of
             Inl err \<Rightarrow> Inl (Errorf ''failed to determine whether a sales tax is applicable'' err)
           | Inr hasTotal \<Rightarrow> Inr (getTaxExchangeStatus_status targetArea hasTotal taxNumber)))"

definition ratesRes ::
  "env \<Rightarrow> Ctrl \<Rightarrow> TaxArea \<Rightarrow> string \<Rightarrow> string option \<Rightarrow> error + taxRate \<times> taxRate" where
  "ratesRes e w targetArea countryCode stateCode =
     (case (if targetArea = TaxAreaRegional \<and> \<not> RegionalTaxEnabled w
            then OriginCountryCode w else None) of
        Some origin \<Rightarrow>
          (case rateRes e w origin of
             Inl err \<Rightarrow> Inl (Errorf (''failed to get country tax rate for '' @ origin) err)
           | Inr countryTax \<Rightarrow> Inr (countryTax, defaultTaxRate))
      | None \<Rightarrow>
          (case rateRes e w countryCode of
             Inl err \<Rightarrow> Inl (Errorf (''failed to get country tax rate for '' @ countryCode) err)
           | Inr countryTax \<Rightarrow> Inr (countryTax, GetSalesTax_stateTax countryTax stateCode)))"

definition exchangeRes ::
  "env \<Rightarrow> Ctrl \<Rightarrow> taxRate \<Rightarrow> taxRate \<Rightarrow> string \<Rightarrow> string option \<Rightarrow> string option
     \<Rightarrow> error + TaxExchange \<times> bool" where
  "exchangeRes e w countryTax stateTax countryCode stateCode taxNumber =
     (if 0 < TaxRate countryTax \<or> 0 < TaxRate stateTax then
        (case statusRes e w countryCode stateCode taxNumber of
           Inl err \<Rightarrow> Inl (Errorf ''failed to get tax exchange status'' err)
         | Inr x \<Rightarrow> Inr x)
      else Inr (TaxExchangeConsumer, False))"

definition salesTaxRes ::
  "env \<Rightarrow> Ctrl \<Rightarrow> string \<Rightarrow> string option \<Rightarrow> string option \<Rightarrow> error + SalesTax" where
  "salesTaxRes e w countryCode stateCode taxNumber =
     (case areaRes w (ToUpper countryCode) of
        Inl err \<Rightarrow> Inl (Errorf ''failed to get target area'' err)
      | Inr targetArea \<Rightarrow>
          (case ratesRes e w targetArea (ToUpper countryCode) (map_option ToUpper stateCode) of
             Inl err \<Rightarrow> Inl err
           | Inr (countryTax, stateTax) \<Rightarrow>
               (case exchangeRes e w countryTax stateTax (ToUpper countryCode)
                       (map_option ToUpper stateCode) taxNumber of
                  Inl err \<Rightarrow> Inl err
                | Inr (taxExchange, isExempt) \<Rightarrow>
                    Inr (GetSalesTax_decision targetArea countryTax stateTax taxExchange
                           isExempt))))"

section \<open>Well-formed tables and an example configuration\<close>

text \<open>All rates of a record, of its history and of its states are non-negative.\<close>

fun nonnegRates :: "taxRate \<Rightarrow> bool" where
  "nonnegRates (taxRate ty r prev states) =
     (0 \<le> r \<and>
      (case prev of None \<Rightarrow> True | Some kvs \<Rightarrow> \<forall>kv\<in>set kvs. nonnegRates (snd kv)) \<and>
      (case states of None \<Rightarrow> True | Some kvs \<Rightarrow> \<forall>kv\<in>set kvs. nonnegRates (snd kv)))"

text \<open>
  A small table with the rates the tests of the package expect (Germany with its two
  superseded rates, France, Canada with Quebec, the United States with New York), one
  region, a clock after both German boundaries, and a parser that knows the two keys.
  Instants are milliseconds since the epoch.
\<close>

definition exampleParse :: "string \<Rightarrow> instant option" where
  "exampleParse s =
     map_of [(''2021-01-01T00:00:00.000Z'', 1609459200000),
             (''2020-07-01T00:00:00.000Z'', 1593561600000)] s"

definition exampleDE :: taxRate where
  "exampleDE =
     taxRate ''vat'' (19 / 100)
       (Some [(''2021-01-01T00:00:00.000Z'', taxRate ''vat'' (16 / 100) None None),
              (''2020-07-01T00:00:00.000Z'', taxRate ''vat'' (19 / 100) None None)])
       None"

definition exampleFR :: taxRate where
  "exampleFR = taxRate ''vat'' (20 / 100) None None"

definition exampleCA :: taxRate where
  "exampleCA =
     taxRate ''gst'' (5 / 100) None (Some [(''QC'', taxRate ''qst'' (9975 / 100000) None None)])"

definition exampleUS :: taxRate where
  "exampleUS = taxRate ''none'' 0 None (Some [(''NY'', taxRate ''vat'' (4 / 100) None None)])"

definition exampleRates :: "(string \<times> taxRate) list" where
  "exampleRates =
     [(''DE'', exampleDE), (''FR'', exampleFR), (''CA'', exampleCA), (''US'', exampleUS)]"

definition exampleRegions :: "(string \<times> string list) list" where
  "exampleRegions = [(''EU'', [''AT'', ''DE'', ''FR'', ''MT''])]"

definition exampleEnv :: env where
  "exampleEnv =
     \<lparr>regionCountriesData = Some exampleRegions, salesTaxRatesData = Some exampleRates,
      currentTime = 1700000000000, time_Parse = exampleParse\<rparr>"

definition exampleCtrl :: Ctrl where
  "exampleCtrl =
     \<lparr>OriginCountryCode = Some ''DE'', RegionalTaxEnabled = True,
      regionCountries = None, taxRates = None\<rparr>"

text \<open>The same configuration at the instant the test of \<open>getSalesTaxRate\<close> sets the clock to.\<close>

definition exampleTestEnv :: env where
  "exampleTestEnv = exampleEnv\<lparr>currentTime := 1597914021000\<rparr>"

text \<open>
  The controller below the regional threshold (the origin's rate applies in the region),
  and a controller once both tables are cached.
\<close>

definition exampleThresholdCtrl :: Ctrl where
  "exampleThresholdCtrl = exampleCtrl\<lparr>RegionalTaxEnabled := False\<rparr>"

definition exampleLoaded :: "Ctrl \<Rightarrow> Ctrl" where
  "exampleLoaded c = c\<lparr>regionCountries := Some exampleRegions, taxRates := Some exampleRates\<rparr>"

text \<open>
  A table with a history key that is a date without a time, which the parser of the
  example rejects.
\<close>

definition exampleBrokenAT :: taxRate where
  "exampleBrokenAT =
     taxRate ''vat'' (20 / 100) (Some [(''2016-01-01'', taxRate ''vat'' (10 / 100) None None)])
       None"

definition exampleBrokenEnv :: env where
  "exampleBrokenEnv = exampleEnv\<lparr>salesTaxRatesData := Some [(''AT'', exampleBrokenAT)]\<rparr>"

section \<open>Every function of the controller returns the result over the loaded tables\<close>

lemma loaded_fields [simp]:
  "OriginCountryCode (loaded e t) = OriginCountryCode t"
  "RegionalTaxEnabled (loaded e t) = RegionalTaxEnabled t"
  by (simp_all add: loaded_def)

lemma getRegionCountries_res:
  "getRegionCountries e t = (r, t') \<Longrightarrow> r = regionsRes (loaded e t) \<and> loaded e t' = loaded e t"
  by (auto simp: getRegionCountries_def regionsRes_def loaded_def split: option.splits)

lemma getSalesTaxRates_res:
  "getSalesTaxRates e t = (r, t') \<Longrightarrow> r = tableRes (loaded e t) \<and> loaded e t' = loaded e t"
  by (auto simp: getSalesTaxRates_def tableRes_def loaded_def split: option.splits)

lemma getTargetArea_res:
  "getTargetArea e t cc = (r, t') \<Longrightarrow> r = areaRes (loaded e t) cc \<and> loaded e t' = loaded e t"
  by (auto simp: getTargetArea_def areaRes_def split: option.splits if_splits prod.splits sum.splits
      dest!: getRegionCountries_res)

lemma getSalesTaxRate_res:
  "getSalesTaxRate e t cc = (r, t') \<Longrightarrow> r = rateRes e (loaded e t) cc \<and> loaded e t' = loaded e t"
  by (auto simp: getSalesTaxRate_def rateRes_def split: prod.splits sum.splits
      dest!: getSalesTaxRates_res)

lemma opt_upper: "(case sc of None \<Rightarrow> None | Some s \<Rightarrow> Ptr (ToUpper s)) = map_option ToUpper sc"
  by (simp add: Ptr_def split: option.splits)

lemma hasTotalSalesTax_res:
  "hasTotalSalesTax e t cc sc = (r, t') \<Longrightarrow>
     r = hasTotalRes e (loaded e t) cc sc \<and> loaded e t' = loaded e t"
  by (auto simp: hasTotalSalesTax_def hasTotalRes_def opt_upper Let_def split: prod.splits sum.splits
      dest!: getSalesTaxRate_res)

lemma getTaxExchangeStatus_res:
  "getTaxExchangeStatus e t cc sc tn = (r, t') \<Longrightarrow>
     r = statusRes e (loaded e t) cc sc tn \<and> loaded e t' = loaded e t"
  by (auto simp: getTaxExchangeStatus_def statusRes_def split: prod.splits sum.splits
      dest!: getTargetArea_res hasTotalSalesTax_res)

lemma GetSalesTax_rates_res:
  "GetSalesTax_rates e t a cc sc = (r, t') \<Longrightarrow>
     r = ratesRes e (loaded e t) a cc sc \<and> loaded e t' = loaded e t"
  by (auto simp: GetSalesTax_rates_def ratesRes_def split: prod.splits sum.splits option.splits if_splits
      dest!: getSalesTaxRate_res)

lemma GetSalesTax_exchange_res:
  "GetSalesTax_exchange e t c s cc sc tn = (r, t') \<Longrightarrow>
     r = exchangeRes e (loaded e t) c s cc sc tn \<and> loaded e t' = loaded e t"
  by (auto simp: GetSalesTax_exchange_def exchangeRes_def split: prod.splits sum.splits if_splits
      dest!: getTaxExchangeStatus_res)

lemma GetSalesTax_res:
  "GetSalesTax e t cc sc tn = (r, t') \<Longrightarrow>
     r = salesTaxRes e (loaded e t) cc sc tn \<and> loaded e t' = loaded e t"
  by (auto simp: GetSalesTax_def salesTaxRes_def opt_upper Let_def split: prod.splits sum.splits
      dest!: getTargetArea_res GetSalesTax_rates_res GetSalesTax_exchange_res)


section \<open>The map index and the loop over the history\<close>

lemma mapIndex_Some:
  "mapIndex (Some kvs) k = (case map_of kvs k of None \<Rightarrow> (zeroTaxRate, False) | Some v \<Rightarrow> (v, True))"
  by (simp add: mapIndex_def)

lemma loop_error_form:
  "getSalesTaxRate_loop e ks active = Inl err \<Longrightarrow>
     \<exists>k\<in>set ks. time_Parse e k = None \<and>
       err = Errorf (''failed to parse date '' @ k) (TimeParseError k)"
  by (induction ks arbitrary: active) (auto split: option.splits)

lemma loop_error_if:
  "k \<in> set ks \<Longrightarrow> time_Parse e k = None \<Longrightarrow> \<exists>err. getSalesTaxRate_loop e ks active = Inl err"
  by (induction ks arbitrary: active) (auto split: option.splits)

lemma loop_None_active:
  "getSalesTaxRate_loop e ks active = Inr None \<Longrightarrow> active = None"
proof (induction ks arbitrary: active)
  case Nil
  then show ?case by simp
next
  case (Cons a ks)
  show ?case
  proof (cases "time_Parse e a")
    case None
    with Cons.prems show ?thesis by simp
  next
    case (Some date)
    with Cons.prems have "(if currentTime e < date
             then (case active of
                     None \<Rightarrow> Some (a, date)
                   | Some (activeDateKey, activeDate) \<Rightarrow>
                       if date < activeDate then Some (a, date) else active)
             else active) = None"
      using Cons.IH by simp
    then show ?thesis by (auto split: if_splits option.splits)
  qed
qed

lemma loop_None:
  "getSalesTaxRate_loop e ks None = Inr None \<Longrightarrow> k \<in> set ks \<Longrightarrow> time_Parse e k = Some d \<Longrightarrow>
     \<not> currentTime e < d"
proof (induction ks)
  case Nil
  then show ?case by simp
next
  case (Cons a ks)
  from Cons.prems(1) obtain date where date: "time_Parse e a = Some date"
    by (cases "time_Parse e a") auto
  show ?case
  proof (cases "currentTime e < date")
    case True
    with Cons.prems(1) date have "getSalesTaxRate_loop e ks (Some (a, date)) = Inr None"
      by simp
    then show ?thesis using loop_None_active by fastforce
  next
    case False
    with Cons.prems(1) date have "getSalesTaxRate_loop e ks None = Inr None"
      by simp
    with Cons.IH Cons.prems(2,3) date False show ?thesis by auto
  qed
qed

lemma loop_Some:
  "getSalesTaxRate_loop e ks active = Inr (Some (k, d)) \<Longrightarrow>
     (active = Some (k, d) \<or> (k \<in> set ks \<and> time_Parse e k = Some d \<and> currentTime e < d)) \<and>
     (\<forall>k'\<in>set ks. \<forall>d'. time_Parse e k' = Some d' \<and> currentTime e < d' \<longrightarrow> d \<le> d') \<and>
     (\<forall>ka da. active = Some (ka, da) \<longrightarrow> d \<le> da)"
proof (induction ks arbitrary: active)
  case Nil
  then show ?case by auto
next
  case (Cons a ks)
  from Cons.prems obtain date where date: "time_Parse e a = Some date"
    by (cases "time_Parse e a") auto
  define active' where "active' = (if currentTime e < date
             then (case active of
                     None \<Rightarrow> Some (a, date)
                   | Some (activeDateKey, activeDate) \<Rightarrow>
                       if date < activeDate then Some (a, date) else active)
             else active)"
  from Cons.prems date have run: "getSalesTaxRate_loop e ks active' = Inr (Some (k, d))"
    by (simp add: active'_def)
  note ih = Cons.IH [OF run]
  from ih have 1: "active = Some (k, d) \<or>
      (k \<in> set (a # ks) \<and> time_Parse e k = Some d \<and> currentTime e < d)"
    using date by (auto simp: active'_def split: if_splits option.splits)
  from ih have 2: "\<forall>ka da. active = Some (ka, da) \<longrightarrow> d \<le> da"
    by (auto simp: active'_def split: if_splits option.splits)
  from ih have 3: "\<forall>d'. time_Parse e a = Some d' \<and> currentTime e < d' \<longrightarrow> d \<le> d'"
    using date by (auto simp: active'_def split: if_splits option.splits)
  from ih 1 2 3 show ?case by auto
qed

section \<open>Helper lemmas\<close>

lemma upperByte_letter:
  "(97::nat) \<le> of_char c \<and> of_char c \<le> (122::nat) \<Longrightarrow>
     upperByte c = char_of (of_char c - (32::nat))"
  by (simp add: upperByte_def)

lemma upperByte_other:
  "\<not> ((97::nat) \<le> of_char c \<and> of_char c \<le> (122::nat)) \<Longrightarrow> upperByte c = c"
  unfolding upperByte_def by (rule if_not_P)

lemma upperByte_idem: "upperByte (upperByte c) = upperByte c"
proof (cases "(97::nat) \<le> of_char c \<and> of_char c \<le> (122::nat)")
  case True
  define d where "d = char_of (of_char c - (32::nat))"
  from True have small: "of_char c - (32::nat) < 256" and below: "\<not> (97::nat) \<le> of_char c - 32"
    by linarith+
  from small have "(of_char c - (32::nat)) mod 256 = of_char c - 32"
    by (rule mod_less)
  then have "of_char d = of_char c - (32::nat)"
    by (simp only: d_def of_char_of)
  with below have "\<not> ((97::nat) \<le> of_char d \<and> of_char d \<le> (122::nat))"
    by (simp only: simp_thms)
  then have "upperByte d = d"
    by (rule upperByte_other)
  moreover from True have "upperByte c = d"
    unfolding d_def by (rule upperByte_letter)
  ultimately show ?thesis
    by (simp only:)
next
  case False
  then have "upperByte c = c"
    by (rule upperByte_other)
  then show ?thesis
    by (simp only:)
qed

lemma ToUpper_idem [simp]: "ToUpper (ToUpper s) = ToUpper s"
  by (simp add: ToUpper_def upperByte_idem)

lemma fst_GetSalesTax: "fst (GetSalesTax e t cc sc tn) = salesTaxRes e (loaded e t) cc sc tn"
  using GetSalesTax_res [of e t cc sc tn] by (metis prod.collapse)

lemma fst_getSalesTaxRate: "fst (getSalesTaxRate e t cc) = rateRes e (loaded e t) cc"
  using getSalesTaxRate_res [of e t cc] by (metis prod.collapse)

lemma fst_getTargetArea: "fst (getTargetArea e t cc) = areaRes (loaded e t) cc"
  using getTargetArea_res [of e t cc] by (metis prod.collapse)

lemma resolve_cases:
  assumes "map_of rates countryCode = Some rate" and "PreviousRecordings rate = Some prev"
  shows "getSalesTaxRate_resolve e rates countryCode =
     (case getSalesTaxRate_loop e (map fst prev) None of
        Inl err \<Rightarrow> Inl err
      | Inr None \<Rightarrow> Inr rate
      | Inr (Some (k, d)) \<Rightarrow> Inr (fst (mapIndex (Some prev) k)))"
  using assms
  by (simp add: getSalesTaxRate_resolve_def mapIndex_Some split: sum.splits option.splits)

lemma resolve_no_history:
  assumes "map_of rates countryCode = Some rate" and "PreviousRecordings rate = None"
  shows "getSalesTaxRate_resolve e rates countryCode = Inr rate"
  using assms by (simp add: getSalesTaxRate_resolve_def mapIndex_Some)

lemma resolve_absent:
  assumes "map_of rates countryCode = None"
  shows "getSalesTaxRate_resolve e rates countryCode = Inr defaultTaxRate"
  using assms by (simp add: getSalesTaxRate_resolve_def mapIndex_Some)

lemma loop_total:
  "\<forall>k\<in>set ks. time_Parse e k \<noteq> None \<Longrightarrow> \<exists>res. getSalesTaxRate_loop e ks active = Inr res"
  by (metis loop_error_form sum.exhaust_sel sum.collapse(2) isl_def)

lemma stateTax_absent:
  "States rate = Some states \<Longrightarrow> map_of states s = None \<Longrightarrow>
     GetSalesTax_stateTax rate (Some s) = zeroTaxRate"
  by (simp add: GetSalesTax_stateTax_def mapIndex_def)

lemma stateTax_None [simp]: "GetSalesTax_stateTax rate None = defaultTaxRate"
  by (simp add: GetSalesTax_stateTax_def split: option.splits)

lemma rate_zero_default [simp]: "TaxRate zeroTaxRate = 0" "TaxRate defaultTaxRate = 0"
  by (simp_all add: zeroTaxRate_def defaultTaxRate_def)

lemma total_absent:
  "States rate = Some states \<Longrightarrow> map_of states s = None \<Longrightarrow>
     hasTotalSalesTax_total rate (Some s) = hasTotalSalesTax_total rate None"
  by (simp add: hasTotalSalesTax_total_def mapIndex_def)

lemma hasTotalRes_absent:
  assumes "rateRes e w (ToUpper cc) = Inr rate" "States rate = Some states"
    "map_of states (ToUpper s) = None"
  shows "hasTotalRes e w cc (Some s) = hasTotalRes e w cc None"
  using assms by (simp add: hasTotalRes_def total_absent)

lemma statusRes_absent:
  assumes "rateRes e w (ToUpper cc) = Inr rate" "States rate = Some states"
    "map_of states (ToUpper s) = None"
  shows "statusRes e w cc (Some s) tn = statusRes e w cc None tn"
  by (simp only: statusRes_def hasTotalRes_absent [OF assms])

lemma exchangeRes_absent:
  assumes "rateRes e w (ToUpper cc) = Inr rate" "States rate = Some states"
    "map_of states (ToUpper s) = None" "TaxRate st = 0" "TaxRate st' = 0"
  shows "exchangeRes e w c st cc (Some s) tn = exchangeRes e w c st' cc None tn"
  using statusRes_absent [OF assms(1-3)] assms(4,5) by (simp add: exchangeRes_def)

lemma decision_zero_state:
  "TaxRate st = 0 \<Longrightarrow> TaxRate st' = 0 \<Longrightarrow>
     GetSalesTax_decision a c st x ex = GetSalesTax_decision a c st' x ex"
  by (simp add: GetSalesTax_decision_def)

section \<open>The claims\<close>

subsection \<open>C1: the history of a rate\<close>

lemma history_general:
  assumes table: "getSalesTaxRates e t = (Inr rates, t')"
    and present: "map_of rates countryCode = Some rate"
    and parse: "\<forall>prev. PreviousRecordings rate = Some prev \<longrightarrow>
                  (\<forall>k\<in>fst ` set prev. time_Parse e k \<noteq> None)"
  shows "\<exists>r. getSalesTaxRate e t countryCode = (Inr r, t') \<and>
     (case PreviousRecordings rate of
        None \<Rightarrow> r = rate
      | Some prev \<Rightarrow>
          if \<exists>k\<in>fst ` set prev. \<exists>d. time_Parse e k = Some d \<and> currentTime e < d
          then \<exists>k d. map_of prev k = Some r \<and> time_Parse e k = Some d \<and> currentTime e < d \<and>
                 (\<forall>k'\<in>fst ` set prev. \<forall>d'.
                    time_Parse e k' = Some d' \<and> currentTime e < d' \<longrightarrow> d \<le> d')
          else r = rate)"
proof (cases "PreviousRecordings rate")
  case None
  with table present show ?thesis
    by (simp add: getSalesTaxRate_def resolve_no_history)
next
  case (Some prev)
  with parse have "\<forall>k\<in>set (map fst prev). time_Parse e k \<noteq> None" by simp
  then obtain res where res: "getSalesTaxRate_loop e (map fst prev) None = Inr res"
    using loop_total by blast
  show ?thesis
  proof (cases res)
    case None
    with res have "\<forall>k\<in>set (map fst prev). \<forall>d. time_Parse e k = Some d \<longrightarrow> \<not> currentTime e < d"
      using loop_None by blast
    then have "\<not> (\<exists>k\<in>fst ` set prev. \<exists>d. time_Parse e k = Some d \<and> currentTime e < d)"
      by auto
    moreover have "getSalesTaxRate e t countryCode = (Inr rate, t')"
      using table present Some res None
      by (simp add: getSalesTaxRate_def resolve_cases)
    ultimately show ?thesis using Some by fastforce
  next
    case (Some kd)
    obtain k d where kd: "kd = (k, d)" by (cases kd)
    from res Some kd have run: "getSalesTaxRate_loop e (map fst prev) None = Inr (Some (k, d))"
      by simp
    from loop_Some [OF run]
    have k: "k \<in> fst ` set prev" "time_Parse e k = Some d" "currentTime e < d"
      and least: "\<forall>k'\<in>fst ` set prev. \<forall>d'.
                    time_Parse e k' = Some d' \<and> currentTime e < d' \<longrightarrow> d \<le> d'"
      by auto
    from k(1) obtain r where r: "map_of prev k = Some r"
      by (metis domD dom_map_of_conv_image_fst)
    have "getSalesTaxRate e t countryCode = (Inr r, t')"
      using table present \<open>PreviousRecordings rate = Some prev\<close> run r
      by (simp add: getSalesTaxRate_def resolve_cases mapIndex_Some)
    moreover have "\<exists>k\<in>fst ` set prev. \<exists>d. time_Parse e k = Some d \<and> currentTime e < d"
      using k by blast
    ultimately show ?thesis
      using \<open>PreviousRecordings rate = Some prev\<close> r k least by auto
  qed
qed

lemma history_single:
  assumes table: "getSalesTaxRates e t = (Inr rates, t')"
    and present: "map_of rates countryCode = Some rate"
    and single: "PreviousRecordings rate = Some [(T, R_old)]"
    and parse: "time_Parse e T = Some dT"
  shows "getSalesTaxRate e t countryCode =
           (Inr (if currentTime e < dT then R_old else rate), t')"
  using assms by (simp add: getSalesTaxRate_def resolve_cases mapIndex_Some)

text \<open>
  C1. For a country of the rate table whose history keys all parse, and for every instant
  of the clock, \<open>getSalesTaxRate\<close> returns a history entry whose key is after the clock and
  no later than any other key after the clock; when no key is after the clock, or the
  record has no history, it returns the record of the table itself. With a single key
  \<open>T\<close> for \<open>R_old\<close>, a clock before \<open>T\<close> gives \<open>R_old\<close> and a clock at or after \<open>T\<close> gives
  the record of the table.
\<close>

theorem history_resolution:
  assumes table: "getSalesTaxRates e t = (Inr rates, t')"
    and present: "map_of rates countryCode = Some rate"
    and parse: "\<forall>prev. PreviousRecordings rate = Some prev \<longrightarrow>
                  (\<forall>k\<in>fst ` set prev. time_Parse e k \<noteq> None)"
  shows "(\<exists>r. getSalesTaxRate e t countryCode = (Inr r, t') \<and>
     (case PreviousRecordings rate of
        None \<Rightarrow> r = rate
      | Some prev \<Rightarrow>
          if \<exists>k\<in>fst ` set prev. \<exists>d. time_Parse e k = Some d \<and> currentTime e < d
          then \<exists>k d. map_of prev k = Some r \<and> time_Parse e k = Some d \<and> currentTime e < d \<and>
                 (\<forall>k'\<in>fst ` set prev. \<forall>d'.
                    time_Parse e k' = Some d' \<and> currentTime e < d' \<longrightarrow> d \<le> d')
          else r = rate)) \<and>
    (\<forall>T R_old dT. PreviousRecordings rate = Some [(T, R_old)] \<and> time_Parse e T = Some dT \<longrightarrow>
       getSalesTaxRate e t countryCode =
         (Inr (if currentTime e < dT then R_old else rate), t'))"
  using history_general [OF assms] history_single [OF table present] by blast

theorem history_resolution_witness:
  "getSalesTaxRates exampleTestEnv exampleCtrl =
     (Inr exampleRates, exampleCtrl\<lparr>taxRates := Some exampleRates\<rparr>)
   \<and> map_of exampleRates ''DE'' = Some exampleDE
   \<and> PreviousRecordings exampleDE =
       Some [(''2021-01-01T00:00:00.000Z'', taxRate ''vat'' (16 / 100) None None),
             (''2020-07-01T00:00:00.000Z'', taxRate ''vat'' (19 / 100) None None)]
   \<and> map (time_Parse exampleTestEnv) [''2021-01-01T00:00:00.000Z'', ''2020-07-01T00:00:00.000Z'']
       = [Some 1609459200000, Some 1593561600000]
   \<and> currentTime exampleTestEnv = 1597914021000
   \<and> getSalesTaxRate exampleTestEnv exampleCtrl ''DE'' =
       (Inr (taxRate ''vat'' (16 / 100) None None), exampleCtrl\<lparr>taxRates := Some exampleRates\<rparr>)"
proof -
  have h1: "getSalesTaxRates exampleTestEnv exampleCtrl =
      (Inr exampleRates, exampleCtrl\<lparr>taxRates := Some exampleRates\<rparr>)"
    by (simp add: getSalesTaxRates_def exampleTestEnv_def exampleEnv_def exampleCtrl_def)
  have h2: "map_of exampleRates ''DE'' = Some exampleDE"
    by (simp add: exampleRates_def)
  have prev: "PreviousRecordings exampleDE =
       Some [(''2021-01-01T00:00:00.000Z'', taxRate ''vat'' (16 / 100) None None),
             (''2020-07-01T00:00:00.000Z'', taxRate ''vat'' (19 / 100) None None)]"
    by (simp add: exampleDE_def)
  have p: "map (time_Parse exampleTestEnv)
        [''2021-01-01T00:00:00.000Z'', ''2020-07-01T00:00:00.000Z'']
       = [Some 1609459200000, Some 1593561600000]"
    by (simp add: exampleTestEnv_def exampleEnv_def exampleParse_def)
  have now: "currentTime exampleTestEnv = 1597914021000"
    by (simp add: exampleTestEnv_def exampleEnv_def)
  have h3: "\<forall>prev. PreviousRecordings exampleDE = Some prev \<longrightarrow>
                  (\<forall>k\<in>fst ` set prev. time_Parse exampleTestEnv k \<noteq> None)"
    using p prev by auto
  from history_resolution [OF h1 h2 h3]
  have "getSalesTaxRate exampleTestEnv exampleCtrl ''DE'' =
       (Inr (taxRate ''vat'' (16 / 100) None None), exampleCtrl\<lparr>taxRates := Some exampleRates\<rparr>)"
    using p now prev by (auto split: if_splits)
  with h1 h2 prev p now show ?thesis
    by (intro conjI)
qed

subsection \<open>C2: the origin's rate inside the region\<close>

text \<open>
  C2. For a controller with an origin country and \<open>RegionalTaxEnabled\<close> false, and a
  destination whose area is regional, \<open>GetSalesTax\<close> takes the origin country's current
  record as the country component and the no-tax record as the state component, and the
  rate of the decision it returns is the origin country's rate.
\<close>

theorem regional_fallback_uses_origin:
  assumes origin: "OriginCountryCode t = Some origin"
    and disabled: "\<not> RegionalTaxEnabled t"
    and area: "getTargetArea e t (ToUpper countryCode) = (Inr TaxAreaRegional, t1)"
    and rate: "getSalesTaxRate e t1 origin = (Inr r, t2)"
  shows "GetSalesTax_rates e t1 TaxAreaRegional (ToUpper countryCode)
            (map_option ToUpper stateCode) = (Inr (r, defaultTaxRate), t2) \<and>
         (\<forall>d t3. GetSalesTax e t countryCode stateCode taxNumber = (Inr d, t3) \<longrightarrow>
            Rate d = TaxRate r \<and> Area d = TaxAreaRegional)"
proof -
  from area have same: "loaded e t1 = loaded e t"
    using getTargetArea_res by blast
  have "OriginCountryCode t1 = Some origin" "\<not> RegionalTaxEnabled t1"
    using origin disabled loaded_fields same by metis+
  then have rates: "GetSalesTax_rates e t1 TaxAreaRegional (ToUpper countryCode)
            (map_option ToUpper stateCode) = (Inr (r, defaultTaxRate), t2)"
    using rate by (simp add: GetSalesTax_rates_def)
  have "Rate d = TaxRate r \<and> Area d = TaxAreaRegional"
    if "GetSalesTax e t countryCode stateCode taxNumber = (Inr d, t3)" for d t3
    using that area rates
    by (auto simp: GetSalesTax_def opt_upper GetSalesTax_decision_def Let_def
        split: prod.splits sum.splits)
  with rates show ?thesis by blast
qed

theorem regional_fallback_uses_origin_witness:
  "OriginCountryCode exampleThresholdCtrl = Some ''DE''
   \<and> \<not> RegionalTaxEnabled exampleThresholdCtrl
   \<and> getTargetArea exampleEnv exampleThresholdCtrl (ToUpper ''FR'') =
       (Inr TaxAreaRegional, exampleThresholdCtrl\<lparr>regionCountries := Some exampleRegions\<rparr>)
   \<and> getSalesTaxRate exampleEnv (exampleThresholdCtrl\<lparr>regionCountries := Some exampleRegions\<rparr>)
         ''DE'' = (Inr exampleDE, exampleLoaded exampleThresholdCtrl)
   \<and> GetSalesTax_rates exampleEnv (exampleThresholdCtrl\<lparr>regionCountries := Some exampleRegions\<rparr>)
         TaxAreaRegional (ToUpper ''FR'') (map_option ToUpper None) =
       (Inr (exampleDE, defaultTaxRate), exampleLoaded exampleThresholdCtrl)
   \<and> GetSalesTax exampleEnv exampleThresholdCtrl ''FR'' None None =
       (Inr \<lparr>Type = ''vat'', Rate = 19 / 100, Area = TaxAreaRegional,
              Exchange = TaxExchangeConsumer, Charge = \<lparr>Direct = True, Reverse = False\<rparr>\<rparr>,
        exampleLoaded exampleThresholdCtrl)
   \<and> TaxRate exampleDE = 19 / 100 \<and> TaxRate exampleFR = 20 / 100"
proof -
  have h1: "OriginCountryCode exampleThresholdCtrl = Some ''DE''"
    by (simp add: exampleThresholdCtrl_def exampleCtrl_def)
  have h2: "\<not> RegionalTaxEnabled exampleThresholdCtrl"
    by (simp add: exampleThresholdCtrl_def exampleCtrl_def)
  have h3: "getTargetArea exampleEnv exampleThresholdCtrl (ToUpper ''FR'') =
       (Inr TaxAreaRegional, exampleThresholdCtrl\<lparr>regionCountries := Some exampleRegions\<rparr>)"
    by code_simp
  have h4: "getSalesTaxRate exampleEnv
         (exampleThresholdCtrl\<lparr>regionCountries := Some exampleRegions\<rparr>) ''DE'' =
       (Inr exampleDE, exampleLoaded exampleThresholdCtrl)"
    by code_simp
  have run: "GetSalesTax exampleEnv exampleThresholdCtrl ''FR'' None None =
       (Inr \<lparr>Type = ''vat'', Rate = 19 / 100, Area = TaxAreaRegional,
              Exchange = TaxExchangeConsumer, Charge = \<lparr>Direct = True, Reverse = False\<rparr>\<rparr>,
        exampleLoaded exampleThresholdCtrl)"
    by code_simp
  have rates: "TaxRate exampleDE = 19 / 100" "TaxRate exampleFR = 20 / 100"
    by (simp_all add: exampleDE_def exampleFR_def)
  from regional_fallback_uses_origin [OF h1 h2 h3 h4, of None None]
  have "GetSalesTax_rates exampleEnv (exampleThresholdCtrl\<lparr>regionCountries := Some exampleRegions\<rparr>)
         TaxAreaRegional (ToUpper ''FR'') (map_option ToUpper None) =
       (Inr (exampleDE, defaultTaxRate), exampleLoaded exampleThresholdCtrl)"
    by (rule conjunct1)
  with h1 h2 h3 h4 run rates show ?thesis
    by (intro conjI)
qed

subsection \<open>C3: a tax number outside the origin country\<close>

lemma statusRes_exempt:
  assumes "statusRes e w cc sc (Some tn) = Inr (x, isExempt)"
    and "areaRes w cc = Inr a" "a \<noteq> TaxAreaNational"
  shows "isExempt"
  using assms
  by (auto simp: statusRes_def getTaxExchangeStatus_status_def split: sum.splits if_splits)

text \<open>
  C3, as amended. For every call of \<open>GetSalesTax\<close> with a tax number whose decision has an
  area other than national, a positive rate and a type other than \<open>none\<close>, the exemption
  is true, \<open>Reverse\<close> is true and \<open>Direct\<close> is false. The claim as stated leaves out the
  condition on the rate: the exchange classifier is only asked when a component has a
  positive rate (line 103), and for an untaxed destination the exemption stays false and
  both flags stay false, as the counterexample shows for a country the table does not list.
\<close>

theorem tax_number_reverse_charge:
  assumes run: "GetSalesTax e t countryCode stateCode (Some taxNumber) = (Inr d, t')"
    and area: "Area d \<noteq> TaxAreaNational"
    and positive: "0 < Rate d"
    and typed: "Type d \<noteq> ''none''"
  shows "Reverse (Charge d) \<and> \<not> Direct (Charge d) \<and>
    (\<exists>targetArea t1 countryTax stateTax t2 taxExchange.
        getTargetArea e t (ToUpper countryCode) = (Inr targetArea, t1) \<and>
        GetSalesTax_rates e t1 targetArea (ToUpper countryCode) (map_option ToUpper stateCode)
          = (Inr (countryTax, stateTax), t2) \<and>
        GetSalesTax_exchange e t2 countryTax stateTax (ToUpper countryCode)
          (map_option ToUpper stateCode) (Some taxNumber) = (Inr (taxExchange, True), t'))"
proof -
  from run obtain a t1 c s t2 x isExempt where
    ar: "getTargetArea e t (ToUpper countryCode) = (Inr a, t1)"
    and rates: "GetSalesTax_rates e t1 a (ToUpper countryCode) (map_option ToUpper stateCode)
          = (Inr (c, s), t2)"
    and exch: "GetSalesTax_exchange e t2 c s (ToUpper countryCode)
          (map_option ToUpper stateCode) (Some taxNumber) = (Inr (x, isExempt), t')"
    and d: "d = GetSalesTax_decision a c s x isExempt"
    by (auto simp: GetSalesTax_def opt_upper Let_def split: prod.splits sum.splits)
  from d area have a: "a \<noteq> TaxAreaNational"
    by (simp add: GetSalesTax_decision_def Let_def)
  from d positive have total: "0 < TaxRate c + TaxRate s"
    by (simp add: GetSalesTax_decision_def Let_def)
  then have gate: "0 < TaxRate c \<or> 0 < TaxRate s"
    by linarith
  have same: "loaded e t2 = loaded e t"
    using ar rates getTargetArea_res GetSalesTax_rates_res by metis
  from ar have "areaRes (loaded e t) (ToUpper countryCode) = Inr a"
    using getTargetArea_res by fastforce
  moreover from exch have "exchangeRes e (loaded e t) c s (ToUpper countryCode)
          (map_option ToUpper stateCode) (Some taxNumber) = Inr (x, isExempt)"
    using GetSalesTax_exchange_res same by fastforce
  then have "statusRes e (loaded e t) (ToUpper countryCode) (map_option ToUpper stateCode)
          (Some taxNumber) = Inr (x, isExempt)"
    using gate by (auto simp: exchangeRes_def split: sum.splits)
  ultimately have exempt: "isExempt"
    using a statusRes_exempt by blast
  from typed d have flags: "Reverse (Charge d) \<and> \<not> Direct (Charge d)"
    using exempt total by (auto simp: GetSalesTax_decision_def Let_def split: if_splits)
  from exch exempt have "GetSalesTax_exchange e t2 c s (ToUpper countryCode)
          (map_option ToUpper stateCode) (Some taxNumber) = (Inr (x, True), t')"
    by simp
  with ar rates have "\<exists>targetArea t1 countryTax stateTax t2 taxExchange.
        getTargetArea e t (ToUpper countryCode) = (Inr targetArea, t1) \<and>
        GetSalesTax_rates e t1 targetArea (ToUpper countryCode) (map_option ToUpper stateCode)
          = (Inr (countryTax, stateTax), t2) \<and>
        GetSalesTax_exchange e t2 countryTax stateTax (ToUpper countryCode)
          (map_option ToUpper stateCode) (Some taxNumber) = (Inr (taxExchange, True), t')"
    by (intro exI conjI)
  with flags show ?thesis by simp
qed

theorem tax_number_reverse_charge_counterexample:
  "GetSalesTax exampleEnv exampleCtrl ''XX'' None (Some ''0123456789'') =
     (Inr \<lparr>Type = ''none'', Rate = 0, Area = TaxAreaWorldwide,
            Exchange = TaxExchangeConsumer, Charge = \<lparr>Direct = False, Reverse = False\<rparr>\<rparr>,
      exampleLoaded exampleCtrl)
   \<and> GetSalesTax_exchange exampleEnv (exampleLoaded exampleCtrl) defaultTaxRate defaultTaxRate
        ''XX'' None (Some ''0123456789'') =
       (Inr (TaxExchangeConsumer, False), exampleLoaded exampleCtrl)"
  by code_simp

theorem tax_number_reverse_charge_witness:
  "GetSalesTax exampleEnv exampleCtrl ''FR'' None (Some ''FR000000000'') =
     (Inr \<lparr>Type = ''vat'', Rate = 20 / 100, Area = TaxAreaRegional,
            Exchange = TaxExchangeBusiness, Charge = \<lparr>Direct = False, Reverse = True\<rparr>\<rparr>,
      exampleLoaded exampleCtrl)
   \<and> Reverse (Charge \<lparr>Type = ''vat'', Rate = 20 / 100, Area = TaxAreaRegional,
            Exchange = TaxExchangeBusiness, Charge = \<lparr>Direct = False, Reverse = True\<rparr>\<rparr>)
   \<and> (\<exists>targetArea t1 countryTax stateTax t2 taxExchange.
        getTargetArea exampleEnv exampleCtrl (ToUpper ''FR'') = (Inr targetArea, t1) \<and>
        GetSalesTax_rates exampleEnv t1 targetArea (ToUpper ''FR'') (map_option ToUpper None)
          = (Inr (countryTax, stateTax), t2) \<and>
        GetSalesTax_exchange exampleEnv t2 countryTax stateTax (ToUpper ''FR'')
          (map_option ToUpper None) (Some ''FR000000000'')
          = (Inr (taxExchange, True), exampleLoaded exampleCtrl))"
proof -
  let ?d = "\<lparr>Type = ''vat'', Rate = 20 / 100, Area = TaxAreaRegional,
            Exchange = TaxExchangeBusiness, Charge = \<lparr>Direct = False, Reverse = True\<rparr>\<rparr>"
  have run: "GetSalesTax exampleEnv exampleCtrl ''FR'' None (Some ''FR000000000'') =
     (Inr ?d, exampleLoaded exampleCtrl)"
    by code_simp
  have area: "Area ?d \<noteq> TaxAreaNational" and positive: "0 < Rate ?d"
    and typed: "Type ?d \<noteq> ''none''"
    by simp_all
  from tax_number_reverse_charge [OF run area positive typed] run show ?thesis
    by (intro conjI) simp_all
qed

subsection \<open>C4: the exchange classifier\<close>

text \<open>
  C4. For every destination country, optional state code and optional tax number,
  \<open>getTaxExchangeStatus\<close> returns consumer and exempt when the destination's country rate
  plus the rate of the listed state is not positive; otherwise business, and exempt
  exactly when the area is not national, when a tax number is given; otherwise consumer
  and not exempt.
\<close>

theorem exchange_classifier:
  assumes area: "getTargetArea e t countryCode = (Inr targetArea, t1)"
    and rate: "getSalesTaxRate e t1 (ToUpper countryCode) = (Inr rate, t2)"
  shows "getTaxExchangeStatus e t countryCode stateCode taxNumber =
     (Inr (if \<not> 0 < TaxRate rate +
                 (case stateCode of
                    None \<Rightarrow> 0
                  | Some s \<Rightarrow>
                      (case States rate of
                         None \<Rightarrow> 0
                       | Some states \<Rightarrow>
                           (case map_of states (ToUpper s) of
                              None \<Rightarrow> 0
                            | Some stateRate \<Rightarrow> TaxRate stateRate)))
           then (TaxExchangeConsumer, True)
           else if taxNumber \<noteq> None
             then (TaxExchangeBusiness, targetArea \<noteq> TaxAreaNational)
             else (TaxExchangeConsumer, False)), t2)"
  using assms
  by (auto simp: getTaxExchangeStatus_def hasTotalSalesTax_def hasTotalSalesTax_total_def
       getTaxExchangeStatus_status_def mapIndex_def Let_def Ptr_def
      split: option.splits)

theorem exchange_classifier_witness:
  "getTargetArea exampleEnv exampleCtrl ''US'' =
     (Inr TaxAreaWorldwide, exampleCtrl\<lparr>regionCountries := Some exampleRegions\<rparr>)
   \<and> getSalesTaxRate exampleEnv (exampleCtrl\<lparr>regionCountries := Some exampleRegions\<rparr>)
        (ToUpper ''US'') = (Inr exampleUS, exampleLoaded exampleCtrl)
   \<and> getTaxExchangeStatus exampleEnv exampleCtrl ''US'' (Some ''NY'') (Some ''0123456789'') =
        (Inr (TaxExchangeBusiness, True), exampleLoaded exampleCtrl)
   \<and> getTaxExchangeStatus exampleEnv exampleCtrl ''US'' (Some ''NY'') None =
        (Inr (TaxExchangeConsumer, False), exampleLoaded exampleCtrl)
   \<and> getTaxExchangeStatus exampleEnv exampleCtrl ''US'' None (Some ''0123456789'') =
        (Inr (TaxExchangeConsumer, True), exampleLoaded exampleCtrl)"
proof -
  have h1: "getTargetArea exampleEnv exampleCtrl ''US'' =
     (Inr TaxAreaWorldwide, exampleCtrl\<lparr>regionCountries := Some exampleRegions\<rparr>)"
    by code_simp
  have h2: "getSalesTaxRate exampleEnv (exampleCtrl\<lparr>regionCountries := Some exampleRegions\<rparr>)
        (ToUpper ''US'') = (Inr exampleUS, exampleLoaded exampleCtrl)"
    by code_simp
  have ny: "ToUpper ''NY'' = ''NY''"
    by code_simp
  note c = exchange_classifier [OF h1 h2]
  have "getTaxExchangeStatus exampleEnv exampleCtrl ''US'' (Some ''NY'') (Some ''0123456789'') =
        (Inr (TaxExchangeBusiness, True), exampleLoaded exampleCtrl)"
    using c [of "Some ''NY''" "Some ''0123456789''"] by (simp add: exampleUS_def ny)
  moreover have "getTaxExchangeStatus exampleEnv exampleCtrl ''US'' (Some ''NY'') None =
        (Inr (TaxExchangeConsumer, False), exampleLoaded exampleCtrl)"
    using c [of "Some ''NY''" None] by (simp add: exampleUS_def ny)
  moreover have "getTaxExchangeStatus exampleEnv exampleCtrl ''US'' None (Some ''0123456789'') =
        (Inr (TaxExchangeConsumer, True), exampleLoaded exampleCtrl)"
    using c [of None "Some ''0123456789''"] by (simp add: exampleUS_def)
  ultimately show ?thesis
    using h1 h2 by (intro conjI)
qed

subsection \<open>C5: the charge flags\<close>

lemma nonnegRates_rate: "nonnegRates r \<Longrightarrow> 0 \<le> TaxRate r"
  by (cases r) simp

lemma map_of_all: "map_of kvs k = Some x \<Longrightarrow> \<forall>kv\<in>set kvs. P (snd kv) \<Longrightarrow> P x"
  by (drule map_of_SomeD) force

lemma nonnegRates_entry:
  "nonnegRates r \<Longrightarrow> PreviousRecordings r = Some prev \<Longrightarrow> map_of prev k = Some x \<Longrightarrow>
     nonnegRates x"
  by (cases r) (auto elim: map_of_all)

lemma nonnegRates_state:
  "nonnegRates r \<Longrightarrow> States r = Some states \<Longrightarrow> map_of states k = Some x \<Longrightarrow> nonnegRates x"
  by (cases r) (auto elim: map_of_all)

lemma nonnegRates_default [simp]: "nonnegRates defaultTaxRate" "nonnegRates zeroTaxRate"
  by (simp_all add: defaultTaxRate_def zeroTaxRate_def)

lemma nonnegRates_mapIndex:
  "nonnegRates r \<Longrightarrow> nonnegRates (fst (mapIndex (PreviousRecordings r) k))"
  by (auto simp: mapIndex_def split: option.splits dest: nonnegRates_entry)

lemma nonnegRates_resolve:
  assumes "\<forall>kv\<in>set rates. nonnegRates (snd kv)"
    and "getSalesTaxRate_resolve e rates countryCode = Inr r"
  shows "nonnegRates r"
proof (cases "map_of rates countryCode")
  case None
  with assms(2) show ?thesis
    by (simp add: resolve_absent)
next
  case (Some rate)
  then have rate: "nonnegRates rate"
    using assms(1) by (rule map_of_all)
  with Some assms(2) show ?thesis
    by (auto simp: getSalesTaxRate_resolve_def mapIndex_Some
        split: option.splits sum.splits dest: nonnegRates_entry)
qed

lemma nonnegRates_stateTax:
  "nonnegRates r \<Longrightarrow> nonnegRates (GetSalesTax_stateTax r stateCode)"
  by (auto simp: GetSalesTax_stateTax_def mapIndex_def Let_def
      split: option.splits dest: nonnegRates_state)

lemma nonnegRates_rateRes:
  assumes "tableRes w = Inr rates" "\<forall>kv\<in>set rates. nonnegRates (snd kv)"
    and "rateRes e w countryCode = Inr r"
  shows "nonnegRates r"
  using assms nonnegRates_resolve by (auto simp: rateRes_def)

lemma nonnegRates_ratesRes:
  assumes "tableRes w = Inr rates" "\<forall>kv\<in>set rates. nonnegRates (snd kv)"
    and "ratesRes e w a countryCode stateCode = Inr (c, s)"
  shows "0 \<le> TaxRate c \<and> 0 \<le> TaxRate s"
  using assms(3) nonnegRates_rateRes [OF assms(1,2)]
  by (auto simp: ratesRes_def nonnegRates_rate nonnegRates_stateTax
      split: option.splits sum.splits if_splits)

lemma exchangeRes_exempt:
  "exchangeRes e w c s cc sc tn = Inr (x, isExempt) \<Longrightarrow> isExempt \<Longrightarrow>
     0 < TaxRate c \<or> 0 < TaxRate s"
  by (auto simp: exchangeRes_def split: if_splits)

lemma decision_charge:
  assumes "0 \<le> TaxRate c" "0 \<le> TaxRate s" "isExempt \<longrightarrow> 0 < TaxRate c \<or> 0 < TaxRate s"
    and "d = GetSalesTax_decision a c s x isExempt"
  shows "\<not> (Direct (Charge d) \<and> Reverse (Charge d)) \<and>
         (\<not> Direct (Charge d) \<and> \<not> Reverse (Charge d) \<longrightarrow> Type d = ''none'')"
  using assms by (auto simp: GetSalesTax_decision_def Let_def)

text \<open>
  C5. When no record of the rate table has a negative rate, the flags \<open>Direct\<close> and
  \<open>Reverse\<close> of a decision that \<open>GetSalesTax\<close> returns are never both true, and they are
  both false only when the type of the decision is \<open>none\<close>.
\<close>

theorem charge_flags_invariant:
  assumes run: "GetSalesTax e t countryCode stateCode taxNumber = (Inr d, t')"
    and table: "getSalesTaxRates e t = (Inr rates, t0)"
    and nonneg: "\<forall>kv\<in>set rates. nonnegRates (snd kv)"
  shows "\<not> (Direct (Charge d) \<and> Reverse (Charge d)) \<and>
         (\<not> Direct (Charge d) \<and> \<not> Reverse (Charge d) \<longrightarrow> Type d = ''none'')"
proof -
  define w where "w = loaded e t"
  from run have res: "salesTaxRes e w countryCode stateCode taxNumber = Inr d"
    using GetSalesTax_res w_def by fastforce
  from table have tab: "tableRes w = Inr rates"
    using getSalesTaxRates_res w_def by fastforce
  from res obtain a c s x isExempt where
    rates: "ratesRes e w a (ToUpper countryCode) (map_option ToUpper stateCode) = Inr (c, s)"
    and exch: "exchangeRes e w c s (ToUpper countryCode) (map_option ToUpper stateCode) taxNumber
            = Inr (x, isExempt)"
    and d: "d = GetSalesTax_decision a c s x isExempt"
    by (auto simp: salesTaxRes_def split: sum.splits prod.splits)
  from nonnegRates_ratesRes [OF tab nonneg rates]
  have "0 \<le> TaxRate c" "0 \<le> TaxRate s" by simp_all
  moreover have "isExempt \<longrightarrow> 0 < TaxRate c \<or> 0 < TaxRate s"
    using exchangeRes_exempt [OF exch] by blast
  ultimately show ?thesis
    using d by (rule decision_charge)
qed

theorem charge_flags_invariant_witness:
  "GetSalesTax exampleEnv exampleCtrl ''US'' None None =
     (Inr \<lparr>Type = ''none'', Rate = 0, Area = TaxAreaWorldwide,
            Exchange = TaxExchangeConsumer, Charge = \<lparr>Direct = False, Reverse = False\<rparr>\<rparr>,
      exampleLoaded exampleCtrl)
   \<and> GetSalesTax exampleEnv exampleCtrl ''FR'' None (Some ''FR000000000'') =
     (Inr \<lparr>Type = ''vat'', Rate = 20 / 100, Area = TaxAreaRegional,
            Exchange = TaxExchangeBusiness, Charge = \<lparr>Direct = False, Reverse = True\<rparr>\<rparr>,
      exampleLoaded exampleCtrl)
   \<and> getSalesTaxRates exampleEnv exampleCtrl =
       (Inr exampleRates, exampleCtrl\<lparr>taxRates := Some exampleRates\<rparr>)
   \<and> list_all (\<lambda>kv. nonnegRates (snd kv)) exampleRates
   \<and> Type \<lparr>Type = ''none'', Rate = 0, Area = TaxAreaWorldwide,
            Exchange = TaxExchangeConsumer, Charge = \<lparr>Direct = False, Reverse = False\<rparr>\<rparr>
       = ''none''
   \<and> \<not> (Direct (Charge \<lparr>Type = ''vat'', Rate = 20 / 100, Area = TaxAreaRegional,
            Exchange = TaxExchangeBusiness, Charge = \<lparr>Direct = False, Reverse = True\<rparr>\<rparr>) \<and>
          Reverse (Charge \<lparr>Type = ''vat'', Rate = 20 / 100, Area = TaxAreaRegional,
            Exchange = TaxExchangeBusiness, Charge = \<lparr>Direct = False, Reverse = True\<rparr>\<rparr>))"
proof -
  have us: "GetSalesTax exampleEnv exampleCtrl ''US'' None None =
     (Inr \<lparr>Type = ''none'', Rate = 0, Area = TaxAreaWorldwide,
            Exchange = TaxExchangeConsumer, Charge = \<lparr>Direct = False, Reverse = False\<rparr>\<rparr>,
      exampleLoaded exampleCtrl)"
    by code_simp
  have fr: "GetSalesTax exampleEnv exampleCtrl ''FR'' None (Some ''FR000000000'') =
     (Inr \<lparr>Type = ''vat'', Rate = 20 / 100, Area = TaxAreaRegional,
            Exchange = TaxExchangeBusiness, Charge = \<lparr>Direct = False, Reverse = True\<rparr>\<rparr>,
      exampleLoaded exampleCtrl)"
    by code_simp
  have table: "getSalesTaxRates exampleEnv exampleCtrl =
       (Inr exampleRates, exampleCtrl\<lparr>taxRates := Some exampleRates\<rparr>)"
    by (simp add: getSalesTaxRates_def exampleEnv_def exampleCtrl_def)
  have ok: "list_all (\<lambda>kv. nonnegRates (snd kv)) exampleRates"
    by (simp add: exampleRates_def exampleDE_def exampleFR_def exampleCA_def exampleUS_def)
  then have nonneg: "\<forall>kv\<in>set exampleRates. nonnegRates (snd kv)"
    by (simp add: list_all_iff)
  from charge_flags_invariant [OF us table nonneg] charge_flags_invariant [OF fr table nonneg]
    us fr table ok
  show ?thesis
    by simp
qed

subsection \<open>C6: the rate of the decision\<close>



subsection \<open>C7: a state that the per-state table does not list\<close>

text \<open>
  C7. The claim is that for a destination with per-state rates and a state code absent from
  them, the state component is the no-tax record, of type \<open>none\<close> and rate 0, and the call
  does not fail. On the code the call does not fail and the component has rate 0, but it is
  the zero value of the struct, whose type is the empty string: line 93 assigns \<open>&tax\<close>
  after line 90 has assigned the default. The evaluation below is for Canada and the
  state code ZZ.
\<close>

theorem absent_state_component:
  "GetSalesTax_rates exampleEnv exampleCtrl TaxAreaWorldwide ''CA'' (Some ''ZZ'') =
     (Inr (exampleCA, taxRate [] 0 None None), exampleCtrl\<lparr>taxRates := Some exampleRates\<rparr>)
   \<and> States exampleCA = Some [(''QC'', taxRate ''qst'' (9975 / 100000) None None)]
   \<and> GetSalesTax_stateTax exampleCA (Some ''ZZ'') = taxRate [] 0 None None
   \<and> TaxType (GetSalesTax_stateTax exampleCA (Some ''ZZ'')) \<noteq> ''none''
   \<and> GetSalesTax_stateTax exampleCA (Some ''ZZ'') \<noteq> defaultTaxRate
   \<and> GetSalesTax exampleEnv exampleCtrl ''CA'' (Some ''ZZ'') None =
     (Inr \<lparr>Type = ''gst'', Rate = 5 / 100, Area = TaxAreaWorldwide,
            Exchange = TaxExchangeConsumer, Charge = \<lparr>Direct = True, Reverse = False\<rparr>\<rparr>,
      exampleLoaded exampleCtrl)"
  by code_simp

subsection \<open>C8: the errors of the rate resolver\<close>

lemma tableRes_loaded:
  "tableRes (loaded e t) = Inr rates \<Longrightarrow> \<exists>t'. getSalesTaxRates e t = (Inr rates, t')"
  by (auto simp: tableRes_def loaded_def getSalesTaxRates_def split: option.splits)

lemma fst_getSalesTaxRates: "fst (getSalesTaxRates e t) = tableRes (loaded e t)"
  using getSalesTaxRates_res [of e t] by (metis prod.collapse)

lemma resolve_error:
  "(\<exists>err. getSalesTaxRate_resolve e rates cc = Inl err) \<longleftrightarrow>
     (\<exists>rate prev. map_of rates cc = Some rate \<and> PreviousRecordings rate = Some prev \<and>
         (\<exists>k\<in>fst ` set prev. time_Parse e k = None))"
proof
  assume "\<exists>err. getSalesTaxRate_resolve e rates cc = Inl err"
  then obtain err where err: "getSalesTaxRate_resolve e rates cc = Inl err" ..
  then obtain rate where rate: "map_of rates cc = Some rate"
    by (cases "map_of rates cc") (auto simp: resolve_absent)
  with err obtain prev where prev: "PreviousRecordings rate = Some prev"
    by (cases "PreviousRecordings rate") (auto simp: resolve_no_history)
  from err have "getSalesTaxRate_loop e (map fst prev) None = Inl err"
    by (auto simp: resolve_cases [OF rate prev] split: sum.splits option.splits)
  then have "\<exists>k\<in>fst ` set prev. time_Parse e k = None"
    using loop_error_form by fastforce
  with rate prev
  show "\<exists>rate prev. map_of rates cc = Some rate \<and> PreviousRecordings rate = Some prev \<and>
         (\<exists>k\<in>fst ` set prev. time_Parse e k = None)"
    by blast
next
  assume "\<exists>rate prev. map_of rates cc = Some rate \<and> PreviousRecordings rate = Some prev \<and>
         (\<exists>k\<in>fst ` set prev. time_Parse e k = None)"
  then obtain rate prev k where rate: "map_of rates cc = Some rate"
    and prev: "PreviousRecordings rate = Some prev"
    and k: "k \<in> set (map fst prev)" "time_Parse e k = None"
    by auto
  from loop_error_if [OF k] obtain err where "getSalesTaxRate_loop e (map fst prev) None = Inl err"
    by blast
  then show "\<exists>err. getSalesTaxRate_resolve e rates cc = Inl err"
    by (simp add: resolve_cases [OF rate prev])
qed

lemma resolve_error_form:
  "getSalesTaxRate_resolve e rates cc = Inl err \<Longrightarrow>
     \<exists>k. err = Errorf (''failed to parse date '' @ k) (TimeParseError k)"
proof -
  assume err: "getSalesTaxRate_resolve e rates cc = Inl err"
  then obtain rate where rate: "map_of rates cc = Some rate"
    by (cases "map_of rates cc") (auto simp: resolve_absent)
  with err obtain prev where prev: "PreviousRecordings rate = Some prev"
    by (cases "PreviousRecordings rate") (auto simp: resolve_no_history)
  from err have "getSalesTaxRate_loop e (map fst prev) None = Inl err"
    by (auto simp: resolve_cases [OF rate prev] split: sum.splits option.splits)
  then show ?thesis
    using loop_error_form by blast
qed

lemma rateRes_parse_error:
  "(\<exists>k. rateRes e w cc = Inl (Errorf (''failed to parse date '' @ k) (TimeParseError k))) \<longleftrightarrow>
   (\<exists>rates rate prev. tableRes w = Inr rates \<and> map_of rates cc = Some rate \<and>
       PreviousRecordings rate = Some prev \<and> (\<exists>k\<in>fst ` set prev. time_Parse e k = None))"
proof (cases "tableRes w")
  case (Inl a)
  then show ?thesis by (simp add: rateRes_def)
next
  case (Inr rates)
  have "(\<exists>k. getSalesTaxRate_resolve e rates cc =
            Inl (Errorf (''failed to parse date '' @ k) (TimeParseError k))) \<longleftrightarrow>
        (\<exists>err. getSalesTaxRate_resolve e rates cc = Inl err)"
    using resolve_error_form by blast
  with Inr show ?thesis
    by (simp add: rateRes_def resolve_error)
qed

lemma salesTaxRes_error:
  assumes "salesTaxRes e w cc sc tn = Inl err"
  shows "isl (areaRes w (ToUpper cc)) \<or> isl (rateRes e w (ToUpper cc)) \<or>
         (\<exists>origin. OriginCountryCode w = Some origin \<and> isl (rateRes e w origin))"
proof (cases "areaRes w (ToUpper cc)")
  case (Inl a)
  then show ?thesis by simp
next
  case (Inr a)
  show ?thesis
  proof (cases "ratesRes e w a (ToUpper cc) (map_option ToUpper sc)")
    case (Inl b)
    then show ?thesis
      by (auto simp: ratesRes_def split: option.splits sum.splits if_splits)
  next
    case rates: (Inr cs)
    obtain c s where cs: "cs = (c, s)" by (cases cs)
    with assms Inr rates
    obtain err' where "exchangeRes e w c s (ToUpper cc) (map_option ToUpper sc) tn = Inl err'"
      by (auto simp: salesTaxRes_def split: sum.splits)
    then obtain err'' where "statusRes e w (ToUpper cc) (map_option ToUpper sc) tn = Inl err''"
      by (auto simp: exchangeRes_def split: if_splits sum.splits)
    with Inr obtain err3 where "hasTotalRes e w (ToUpper cc) (map_option ToUpper sc) = Inl err3"
      by (auto simp: statusRes_def split: sum.splits)
    then have "isl (rateRes e w (ToUpper cc))"
      by (auto simp: hasTotalRes_def split: sum.splits)
    then show ?thesis by simp
  qed
qed

lemma salesTaxRes_no_number:
  "salesTaxRes e w cc sc None = Inr d \<Longrightarrow> Exchange d = TaxExchangeConsumer"
  by (auto simp: salesTaxRes_def exchangeRes_def statusRes_def getTaxExchangeStatus_status_def
       GetSalesTax_decision_def Let_def split: sum.splits prod.splits if_splits)

lemma stateTax_unlisted:
  "\<not> snd (mapIndex (States countryTax) s) \<Longrightarrow> TaxRate (GetSalesTax_stateTax countryTax (Some s)) = 0"
  by (auto simp: GetSalesTax_stateTax_def mapIndex_def Let_def split: option.splits)

text \<open>
  C8. \<open>getSalesTaxRate\<close> fails with the error of a date that does not parse exactly when
  the country is in the rate table and a key of its history does not parse. A country the
  table does not list gives the no-tax record and no error; the state code and the tax
  number cause no error (every error of \<open>GetSalesTax\<close> is one of the area classifier or of
  the rate resolver, for the destination or for the origin); a state that is not listed
  contributes the rate 0, and a call without a tax number is classified as consumer.
\<close>

theorem date_parse_error_iff:
  "((\<exists>k. fst (getSalesTaxRate e t countryCode) =
          Inl (Errorf (''failed to parse date '' @ k) (TimeParseError k))) \<longleftrightarrow>
    (\<exists>rates t' rate prev.
        getSalesTaxRates e t = (Inr rates, t') \<and> map_of rates countryCode = Some rate \<and>
        PreviousRecordings rate = Some prev \<and> (\<exists>k\<in>fst ` set prev. time_Parse e k = None))) \<and>
   (\<forall>rates t'. getSalesTaxRates e t = (Inr rates, t') \<and> map_of rates countryCode = None \<longrightarrow>
        getSalesTaxRate e t countryCode = (Inr defaultTaxRate, t')) \<and>
   (\<forall>stateCode taxNumber.
        isl (fst (GetSalesTax e t countryCode stateCode taxNumber)) \<longrightarrow>
          isl (fst (getTargetArea e t (ToUpper countryCode))) \<or>
          isl (fst (getSalesTaxRate e t (ToUpper countryCode))) \<or>
          (\<exists>origin. OriginCountryCode t = Some origin \<and> isl (fst (getSalesTaxRate e t origin)))) \<and>
   (\<forall>countryTax s. \<not> snd (mapIndex (States countryTax) s) \<longrightarrow>
        TaxRate (GetSalesTax_stateTax countryTax (Some s)) = 0) \<and>
   (\<forall>stateCode d t'. GetSalesTax e t countryCode stateCode None = (Inr d, t') \<longrightarrow>
        Exchange d = TaxExchangeConsumer)"
proof (intro conjI allI impI)
  show "(\<exists>k. fst (getSalesTaxRate e t countryCode) =
          Inl (Errorf (''failed to parse date '' @ k) (TimeParseError k))) \<longleftrightarrow>
    (\<exists>rates t' rate prev.
        getSalesTaxRates e t = (Inr rates, t') \<and> map_of rates countryCode = Some rate \<and>
        PreviousRecordings rate = Some prev \<and> (\<exists>k\<in>fst ` set prev. time_Parse e k = None))"
    unfolding fst_getSalesTaxRate rateRes_parse_error
    using tableRes_loaded [of e t] fst_getSalesTaxRates [of e t]
    by (metis fst_conv)
next
  fix rates t'
  assume "getSalesTaxRates e t = (Inr rates, t') \<and> map_of rates countryCode = None"
  then show "getSalesTaxRate e t countryCode = (Inr defaultTaxRate, t')"
    by (simp add: getSalesTaxRate_def resolve_absent)
next
  fix stateCode taxNumber
  assume "isl (fst (GetSalesTax e t countryCode stateCode taxNumber))"
  then obtain err where "salesTaxRes e (loaded e t) countryCode stateCode taxNumber = Inl err"
    by (auto simp: fst_GetSalesTax isl_def)
  from salesTaxRes_error [OF this]
  show "isl (fst (getTargetArea e t (ToUpper countryCode))) \<or>
          isl (fst (getSalesTaxRate e t (ToUpper countryCode))) \<or>
          (\<exists>origin. OriginCountryCode t = Some origin \<and> isl (fst (getSalesTaxRate e t origin)))"
    by (simp add: fst_getTargetArea fst_getSalesTaxRate)
next
  fix countryTax s
  assume "\<not> snd (mapIndex (States countryTax) s)"
  then show "TaxRate (GetSalesTax_stateTax countryTax (Some s)) = 0"
    by (rule stateTax_unlisted)
next
  fix stateCode d t'
  assume "GetSalesTax e t countryCode stateCode None = (Inr d, t')"
  then have "salesTaxRes e (loaded e t) countryCode stateCode None = Inr d"
    using GetSalesTax_res by fastforce
  then show "Exchange d = TaxExchangeConsumer"
    by (rule salesTaxRes_no_number)
qed

theorem date_parse_error_iff_witness:
  "getSalesTaxRates exampleBrokenEnv exampleCtrl =
     (Inr [(''AT'', exampleBrokenAT)], exampleCtrl\<lparr>taxRates := Some [(''AT'', exampleBrokenAT)]\<rparr>)
   \<and> map_of [(''AT'', exampleBrokenAT)] ''AT'' = Some exampleBrokenAT
   \<and> PreviousRecordings exampleBrokenAT =
       Some [(''2016-01-01'', taxRate ''vat'' (10 / 100) None None)]
   \<and> time_Parse exampleBrokenEnv ''2016-01-01'' = None
   \<and> (\<exists>k. fst (getSalesTaxRate exampleBrokenEnv exampleCtrl ''AT'') =
          Inl (Errorf (''failed to parse date '' @ k) (TimeParseError k)))
   \<and> fst (getSalesTaxRate exampleBrokenEnv exampleCtrl ''AT'') =
          Inl (Errorf ''failed to parse date 2016-01-01'' (TimeParseError ''2016-01-01''))"
proof -
  have h1: "getSalesTaxRates exampleBrokenEnv exampleCtrl =
     (Inr [(''AT'', exampleBrokenAT)], exampleCtrl\<lparr>taxRates := Some [(''AT'', exampleBrokenAT)]\<rparr>)"
    by (simp add: getSalesTaxRates_def exampleBrokenEnv_def exampleEnv_def exampleCtrl_def)
  have h2: "map_of [(''AT'', exampleBrokenAT)] ''AT'' = Some exampleBrokenAT"
    by simp
  have h3: "PreviousRecordings exampleBrokenAT =
       Some [(''2016-01-01'', taxRate ''vat'' (10 / 100) None None)]"
    by (simp add: exampleBrokenAT_def)
  have h4: "time_Parse exampleBrokenEnv ''2016-01-01'' = None"
    by (simp add: exampleBrokenEnv_def exampleEnv_def exampleParse_def)
  have "\<exists>rates t' rate prev.
        getSalesTaxRates exampleBrokenEnv exampleCtrl = (Inr rates, t') \<and>
        map_of rates ''AT'' = Some rate \<and> PreviousRecordings rate = Some prev \<and>
        (\<exists>k\<in>fst ` set prev. time_Parse exampleBrokenEnv k = None)"
    using h1 h2 h3 h4 by auto
  with date_parse_error_iff [of exampleBrokenEnv exampleCtrl "''AT''"]
  have err: "\<exists>k. fst (getSalesTaxRate exampleBrokenEnv exampleCtrl ''AT'') =
          Inl (Errorf (''failed to parse date '' @ k) (TimeParseError k))"
    by blast
  have run: "fst (getSalesTaxRate exampleBrokenEnv exampleCtrl ''AT'') =
          Inl (Errorf ''failed to parse date 2016-01-01'' (TimeParseError ''2016-01-01''))"
    by code_simp
  from h1 h2 h3 h4 err run show ?thesis
    by (intro conjI)
qed

subsection \<open>C9: a country that the table does not list\<close>

text \<open>
  C9. For every country code absent from the rate table, \<open>getSalesTaxRate\<close> returns the
  no-tax record, with type \<open>none\<close>, rate 0 and neither states nor history, and it reports
  no error.
\<close>

theorem unknown_country_no_tax:
  assumes "getSalesTaxRates e t = (Inr rates, t')"
    and "map_of rates countryCode = None"
  shows "getSalesTaxRate e t countryCode = (Inr (taxRate ''none'' 0 None None), t')"
  using assms
  by (simp add: getSalesTaxRate_def resolve_absent defaultTaxRate_def)

theorem unknown_country_no_tax_witness:
  "getSalesTaxRates exampleEnv exampleCtrl =
     (Inr exampleRates, exampleCtrl\<lparr>taxRates := Some exampleRates\<rparr>)
   \<and> map_of exampleRates ''XX'' = None
   \<and> getSalesTaxRate exampleEnv exampleCtrl ''XX'' =
       (Inr (taxRate ''none'' 0 None None), exampleCtrl\<lparr>taxRates := Some exampleRates\<rparr>)"
proof -
  have h1: "getSalesTaxRates exampleEnv exampleCtrl =
      (Inr exampleRates, exampleCtrl\<lparr>taxRates := Some exampleRates\<rparr>)"
    by (simp add: getSalesTaxRates_def exampleEnv_def exampleCtrl_def)
  have h2: "map_of exampleRates ''XX'' = None"
    by (simp add: exampleRates_def)
  from unknown_country_no_tax [OF h1 h2] h1 h2 show ?thesis
    by (intro conjI)
qed

subsection \<open>C10: an unlisted state changes nothing\<close>

text \<open>
  C10. For a destination whose current record has per-state rates, a state code that they
  do not list and any optional tax number, \<open>GetSalesTax\<close> returns the same result as the
  call without a state code.
\<close>

theorem absent_state_as_no_state:
  assumes rate: "getSalesTaxRate e t (ToUpper countryCode) = (Inr rate, t1)"
    and states: "States rate = Some states"
    and absent: "map_of states (ToUpper stateCode) = None"
  shows "fst (GetSalesTax e t countryCode (Some stateCode) taxNumber) =
         fst (GetSalesTax e t countryCode None taxNumber)"
proof -
  define w where "w = loaded e t"
  from rate have r: "rateRes e w (ToUpper countryCode) = Inr rate"
    using getSalesTaxRate_res w_def by fastforce
  have r': "rateRes e w (ToUpper (ToUpper countryCode)) = Inr rate"
    using r by simp
  have absent': "map_of states (ToUpper (ToUpper stateCode)) = None"
    using absent by simp
  have ex: "exchangeRes e w c st (ToUpper countryCode) (Some (ToUpper stateCode)) taxNumber =
            exchangeRes e w c st' (ToUpper countryCode) None taxNumber"
    if "TaxRate st = 0" "TaxRate st' = 0" for c st st'
    using exchangeRes_absent [OF r' states absent' that] .
  have "salesTaxRes e w countryCode (Some stateCode) taxNumber =
        salesTaxRes e w countryCode None taxNumber"
  proof (cases "areaRes w (ToUpper countryCode)")
    case (Inl err)
    then show ?thesis by (simp add: salesTaxRes_def)
  next
    case (Inr a)
    show ?thesis
    proof (cases "if a = TaxAreaRegional \<and> \<not> RegionalTaxEnabled w then OriginCountryCode w else None")
      case None
      then have "ratesRes e w a (ToUpper countryCode) (Some (ToUpper stateCode)) = Inr (rate, zeroTaxRate)"
        "ratesRes e w a (ToUpper countryCode) None = Inr (rate, defaultTaxRate)"
        using r states absent by (simp_all add: ratesRes_def stateTax_absent)
      then show ?thesis
        using Inr ex [of zeroTaxRate defaultTaxRate rate]
          decision_zero_state [of zeroTaxRate defaultTaxRate]
        by (simp add: salesTaxRes_def split: sum.splits prod.splits)
    next
      case (Some origin)
      then have eq: "ratesRes e w a (ToUpper countryCode) (Some (ToUpper stateCode)) =
          ratesRes e w a (ToUpper countryCode) None"
        by (simp add: ratesRes_def)
      have st: "TaxRate st = 0"
        if "ratesRes e w a (ToUpper countryCode) None = Inr (c, st)" for c st
        using that Some by (auto simp: ratesRes_def split: sum.splits)
      show ?thesis
        using Inr eq st ex
        by (auto simp: salesTaxRes_def split: sum.splits prod.splits)
    qed
  qed
  then show ?thesis by (simp add: fst_GetSalesTax w_def)
qed

theorem absent_state_as_no_state_witness:
  "getSalesTaxRate exampleEnv exampleCtrl (ToUpper ''CA'') =
     (Inr exampleCA, exampleCtrl\<lparr>taxRates := Some exampleRates\<rparr>)
   \<and> States exampleCA = Some [(''QC'', taxRate ''qst'' (9975 / 100000) None None)]
   \<and> map_of [(''QC'', taxRate ''qst'' (9975 / 100000) None None)] (ToUpper ''ZZ'') = None
   \<and> fst (GetSalesTax exampleEnv exampleCtrl ''CA'' (Some ''ZZ'') None) =
       fst (GetSalesTax exampleEnv exampleCtrl ''CA'' None None)
   \<and> fst (GetSalesTax exampleEnv exampleCtrl ''CA'' None None) =
       Inr \<lparr>Type = ''gst'', Rate = 5 / 100, Area = TaxAreaWorldwide,
            Exchange = TaxExchangeConsumer, Charge = \<lparr>Direct = True, Reverse = False\<rparr>\<rparr>"
proof -
  have h1: "getSalesTaxRate exampleEnv exampleCtrl (ToUpper ''CA'') =
     (Inr exampleCA, exampleCtrl\<lparr>taxRates := Some exampleRates\<rparr>)"
    by code_simp
  have h2: "States exampleCA = Some [(''QC'', taxRate ''qst'' (9975 / 100000) None None)]"
    by (simp add: exampleCA_def)
  have h3: "map_of [(''QC'', taxRate ''qst'' (9975 / 100000) None None)] (ToUpper ''ZZ'') = None"
    by code_simp
  have run: "fst (GetSalesTax exampleEnv exampleCtrl ''CA'' None None) =
       Inr \<lparr>Type = ''gst'', Rate = 5 / 100, Area = TaxAreaWorldwide,
            Exchange = TaxExchangeConsumer, Charge = \<lparr>Direct = True, Reverse = False\<rparr>\<rparr>"
    by code_simp
  from absent_state_as_no_state [OF h1 h2 h3, of None] h1 h2 h3 run show ?thesis
    by (intro conjI)
qed

end
